theory Spec2Isabelle
  imports Main "HOL-Library.Word" "HOL-Library.Sublist"
begin

section \<open>Call assembly, admission and lifecycle of the agent (api/agent/call.go)\<close>

text \<open>
  The theory embeds \<^verbatim>\<open>api/agent/call.go\<close>: the configurators (\<^verbatim>\<open>CallOpt\<close>) that build a
  call, \<^verbatim>\<open>GetCall\<close> with its admission check, and the two lifecycle methods \<^verbatim>\<open>Start\<close> and
  \<^verbatim>\<open>End\<close>. Go pointers to objects the caller owns and the code writes (the route, the
  function, the request) are addresses into a store; objects that are only read are
  passed by value. Every call to a collaborator and every write to the response header is
  appended to a trace, so that the order of effects can be stated. A panic of the Go
  runtime (a failed type assertion, a nil dereference) is the result \<open>Panics\<close>.
\<close>

subsection \<open>Errors\<close>

text \<open>
  A Go \<^verbatim>\<open>error\<close> value. \<open>DeadlineExceeded\<close> and \<open>Canceled\<close> are the two values of package
  context, \<open>ErrCallTimeoutServerBusy\<close> is the value of package models that \<^verbatim>\<open>GetCall\<close>
  returns, \<open>ErrorString\<close> is what \<^verbatim>\<open>errors.New\<close> and \<^verbatim>\<open>fmt.Errorf\<close> build, and \<open>Foreign\<close> is
  any error made by a collaborator, with an identity and its message. A nil error is
  \<open>None\<close> of \<open>go_error option\<close>.
\<close>

datatype go_error =
    DeadlineExceeded
  | Canceled
  | ErrCallTimeoutServerBusy
  | ErrorString string
  | Foreign nat string

text \<open>
  Modelled from the spec: the text of \<open>ErrCallTimeoutServerBusy\<close>, which package models
  declares and which is not part of the sources verified here; the spec calls the error
  the typed "server busy" condition. No theorem below depends on this text. The rest of
  the method \<^verbatim>\<open>Error()\<close>: the two errors of package context have the texts of the
  standard library, and the other errors carry their text.
\<close>

fun errorMessage :: "go_error \<Rightarrow> string" where
  "errorMessage DeadlineExceeded = ''context deadline exceeded''"
| "errorMessage Canceled = ''context canceled''"
| "errorMessage ErrCallTimeoutServerBusy = ''server busy''"
| "errorMessage (ErrorString s) = s"
| "errorMessage (Foreign i s) = s"

text \<open>\<^verbatim>\<open>fmt.Errorf(prefix + "%v", err)\<close>: a new error whose text is the prefix and the message.\<close>

definition Errorf :: "string \<Rightarrow> go_error \<Rightarrow> go_error" where
  "Errorf pre err = ErrorString (pre @ errorMessage err)"

datatype 'a result = Panics | Returns 'a

subsection \<open>Formatting\<close>

text \<open>\<^verbatim>\<open>fmt.Sprintf("%d", n)\<close> for an unsigned integer: its decimal digits, no leading zero.\<close>

function decimal :: "nat \<Rightarrow> string" where
  "decimal n =
     (if n < 10 then [''0123456789'' ! n]
      else decimal (n div 10) @ [''0123456789'' ! (n mod 10)])"
  by pat_completeness auto
termination
  by (relation "measure id") auto

declare decimal.simps [simp del]

subsection \<open>The data model (package models)\<close>

type_synonym DateTime = int
type_synonym Config = "string \<rightharpoonup> string"
type_synonym Annotations = "string \<rightharpoonup> string"
type_synonym Header = "string \<rightharpoonup> string list"

text \<open>
  One sample of the statistics series of a call: its time and the metrics read then.
\<close>

record Stat =
  Timestamp :: DateTime
  Metrics :: "string \<rightharpoonup> 64 word"

text \<open>
  \<^verbatim>\<open>models.Call\<close>, with the fields this file reads or writes. \<^verbatim>\<open>Memory\<close> is a uint64 and
  \<^verbatim>\<open>TmpFsSize\<close> a uint32 (the code converts it with \<^verbatim>\<open>uint64(c.TmpFsSize)\<close>); \<^verbatim>\<open>CPUs\<close> is
  a \<^verbatim>\<open>MilliCPUs\<close>, an unsigned 64-bit count.
\<close>

record Call =
  ID :: string
  Path :: string
  Image :: string
  Type :: string
  Format :: string
  Priority :: "32 word option"
  Timeout :: "32 word"
  IdleTimeout :: "32 word"
  TmpFsSize :: "32 word"
  Memory :: "64 word"
  CPUs :: "64 word"
  Config :: Config
  Annotations :: Annotations
  Headers :: Header
  CreatedAt :: DateTime
  URL :: string
  Method :: string
  AppID :: string
  FnID :: string
  TriggerID :: string
  SyslogURL :: string
  Payload :: string
  StartedAt :: DateTime
  CompletedAt :: DateTime
  Status :: string
  Error :: string
  Stats :: "Stat list"

text \<open>The zero value of \<^verbatim>\<open>models.Call\<close>, which a composite literal starts from.\<close>

definition zeroCall :: Call where
  "zeroCall =
     \<lparr>ID = '''', Path = '''', Image = '''', Type = '''', Format = '''', Priority = None,
      Timeout = 0, IdleTimeout = 0, TmpFsSize = 0, Memory = 0, CPUs = 0,
      Config = Map.empty, Annotations = Map.empty, Headers = Map.empty, CreatedAt = 0,
      URL = '''', Method = '''', AppID = '''', FnID = '''', TriggerID = '''',
      SyslogURL = '''', Payload = '''', StartedAt = 0, CompletedAt = 0, Status = '''',
      Error = '''', Stats = []\<rparr>"

record App =
  app_ID :: string
  app_Name :: string
  app_Config :: Config
  app_Annotations :: Annotations
  app_SyslogURL :: "string option"

text \<open>
  \<^verbatim>\<open>route.Headers\<close> is a Go map that \<^verbatim>\<open>FromRequest\<close> ranges over; the list gives its entries
  in the order the range statement visits them.
\<close>

record Route =
  route_Path :: string
  route_Image :: string
  route_Type :: string
  route_Format :: string
  route_Timeout :: "32 word"
  route_IdleTimeout :: "32 word"
  route_TmpFsSize :: "32 word"
  route_Memory :: "64 word"
  route_CPUs :: "64 word"
  route_Config :: Config
  route_Annotations :: Annotations
  route_Headers :: "(string \<times> string list) list"

record Fn =
  fn_ID :: string
  fn_Image :: string
  fn_Format :: string
  fn_Timeout :: "32 word"
  fn_IdleTimeout :: "32 word"
  fn_Memory :: "64 word"
  fn_Config :: Config
  fn_Annotations :: Annotations

record Trigger =
  trigger_ID :: string
  trigger_Source :: string
  trigger_Annotations :: Annotations

text \<open>
  Modelled from the spec: the constants of package models, which is not part of the
  sources verified here. The spec names the response formats \<^verbatim>\<open>default\<close> and
  \<^verbatim>\<open>cloudevent\<close> and the execution types \<^verbatim>\<open>sync\<close> and \<^verbatim>\<open>async\<close>; \<^verbatim>\<open>FromEvent\<close> writes the
  literals \<^verbatim>\<open>sync\<close> and \<^verbatim>\<open>cloudevent\<close> itself.
\<close>

definition FormatDefault :: string where
  "FormatDefault = ''default''"

definition FormatCloudEvent :: string where
  "FormatCloudEvent = ''cloudevent''"

definition TypeAsync :: string where
  "TypeAsync = ''async''"

text \<open>The constant \<^verbatim>\<open>ceMimeType\<close> of the file.\<close>

definition ceMimeType :: string where
  "ceMimeType = ''application/cloudevents+json''"

subsection \<open>Requests, contexts and collaborators\<close>

record URL_t =
  Scheme :: string
  Host :: string
  RequestURI :: string

text \<open>
  \<^verbatim>\<open>setCallPayload\<close> reads the body in a goroutine and waits, in a select, for the read or
  for \<^verbatim>\<open>ctx.Done()\<close>. A body is modelled by the case of the select that fires: the read
  ends first and well (with its bytes), the read ends first with an error other than
  \<^verbatim>\<open>io.EOF\<close>, or the context is done first (with the value of \<^verbatim>\<open>ctx.Err()\<close>).
\<close>

datatype reader =
    Delivers string
  | ReadFails go_error
  | Cancelled go_error

record Request =
  req_Header :: Header
  req_Method :: string
  req_Host :: string
  req_TLS :: bool
  req_URL :: URL_t
  req_Body :: reader

text \<open>A \<^verbatim>\<open>context.Context\<close>, by what \<^verbatim>\<open>ctx.Err()\<close> returns: \<open>None\<close> while it is not done.\<close>

record Context =
  Err :: "go_error option"

text \<open>
  The interfaces \<^verbatim>\<open>CallHandler\<close> and \<^verbatim>\<open>callTrigger\<close> are declared elsewhere in the package.
  A collaborator is given the call to read and is modelled by the error it returns.
\<close>

record CallHandler =
  handler_Start :: "Context \<Rightarrow> Call \<Rightarrow> go_error option"
  handler_Finish :: "Context \<Rightarrow> Call \<Rightarrow> nat option \<Rightarrow> bool \<Rightarrow> go_error option"

record callTrigger =
  fireBeforeCall :: "Context \<Rightarrow> Call \<Rightarrow> go_error option"
  fireAfterCall :: "Context \<Rightarrow> Call \<Rightarrow> go_error option"

text \<open>
  An \<^verbatim>\<open>io.Writer\<close>: one that is an \<^verbatim>\<open>http.ResponseWriter\<close>, a log stream (by its handle),
  or any other writer.
\<close>

datatype Writer = ResponseWriter | Stream nat | OtherWriter

text \<open>
  The struct \<^verbatim>\<open>call\<close>. The embedded pointer \<^verbatim>\<open>*models.Call\<close> is the field \<open>Call\<close>, nil being
  \<open>None\<close>; \<open>call_w\<close> and \<open>call_ct\<close> are the fields \<^verbatim>\<open>w\<close> and \<^verbatim>\<open>ct\<close>. The fields \<^verbatim>\<open>slots\<close>,
  \<^verbatim>\<open>requestState\<close> and \<^verbatim>\<open>containerState\<close> are not touched in this file and are left out.
\<close>

record call =
  Call :: "Call option"
  IsCloudEvent :: bool
  handler :: "CallHandler option"
  call_w :: "Writer option"
  stderr :: "nat option"
  call_ct :: "callTrigger option"
  slotHashId :: string
  isLB :: bool
  extensions :: "(string \<rightharpoonup> string) option"

text \<open>\<^verbatim>\<open>var c call\<close>: the zero value.\<close>

definition zero_call :: call where
  "zero_call =
     \<lparr>Call = None, IsCloudEvent = False, handler = None, call_w = None, stderr = None,
      call_ct = None, slotHashId = '''', isLB = False, extensions = None\<rparr>"

text \<open>
  The effects on the world outside the call, in the order they happen: writes to the
  header of the response writer, log lines, and the calls to the collaborators with the
  arguments they were given.
\<close>

datatype event =
    HeaderAdd string string
  | HeaderSet string string
  | Debugf string go_error
  | LogError string go_error
  | Overrider Call "(string \<rightharpoonup> string) option"
  | IsResourcePossibleCalled "64 word" "64 word" bool
  | HandlerStart Call
  | BeforeCall Call
  | HandlerFinish Call "nat option" bool
  | StderrClose nat
  | AfterCall Call

record world =
  routes :: "nat \<rightharpoonup> Route"
  fns :: "nat \<rightharpoonup> Fn"
  requests :: "nat \<rightharpoonup> Request"
  trace :: "event list"

definition emit :: "event list \<Rightarrow> world \<Rightarrow> world" where
  "emit es s = s\<lparr>trace := trace s @ es\<rparr>"

type_synonym CallOpt =
  "Context \<Rightarrow> call \<times> world \<Rightarrow> (go_error option \<times> call \<times> world) result"

subsection \<open>Functions of other packages\<close>

text \<open>
  What the file calls in the standard library and in other files of the repository is a
  parameter: \<^verbatim>\<open>mime.ParseMediaType\<close> (the media type and its parameters, or an error),
  \<^verbatim>\<open>route.Validate\<close>, \<^verbatim>\<open>Annotations.MergeChange\<close>, \<^verbatim>\<open>MilliCPUs.String\<close>, \<^verbatim>\<open>url.URL.String\<close>,
  \<^verbatim>\<open>time.Duration.String\<close>, and \<^verbatim>\<open>setupCtx\<close> and \<^verbatim>\<open>setupLogger\<close> of the agent package.
\<close>

record externals =
  ParseMediaType :: "string \<Rightarrow> go_error + string \<times> (string \<rightharpoonup> string)"
  Validate :: "Route \<Rightarrow> go_error option"
  MergeChange :: "Annotations \<Rightarrow> Annotations \<Rightarrow> Annotations"
  MilliCPUs_String :: "64 word \<Rightarrow> string"
  URL_String :: "URL_t \<Rightarrow> string"
  Duration_String :: "int \<Rightarrow> string"
  setupCtx :: "call \<Rightarrow> call"
  setupLogger :: "Context \<Rightarrow> 64 word \<Rightarrow> Call option \<Rightarrow> nat"

text \<open>
  Modelled from the spec: \<^verbatim>\<open>drivers.Decimate\<close>, of package api/agent/drivers, is not part
  of the sources verified here. The spec says that the statistics are "decimated to a
  fixed maximum retained-sample count", that "a call producing more than 240 raw statistics samples is
  persisted with exactly 240 (or the configured bound) representative samples, preserving
  chronological order", and that decimation bounds "a time series to a fixed maximum
  sample count while preserving representative shape". A series within the bound is
  kept; a longer one keeps \<open>maxSamples\<close> of its samples, evenly spread, in their order.
\<close>

definition Decimate :: "nat \<Rightarrow> 'a list \<Rightarrow> 'a list" where
  "Decimate maxSamples stats =
     (if length stats \<le> maxSamples then stats
      else map (\<lambda>i. stats ! (i * length stats div maxSamples)) [0..<maxSamples])"

subsection \<open>Configuration synthesis\<close>

definition buildConfig :: "externals \<Rightarrow> App \<Rightarrow> Route \<Rightarrow> Config" where
  "buildConfig X app route =
     (let conf = Map.empty;
          conf = conf ++ app_Config app;
          conf = conf ++ route_Config route;
          conf = conf(''FN_FORMAT'' \<mapsto> route_Format route);
          conf = conf(''FN_APP_NAME'' \<mapsto> app_Name app);
          conf = conf(''FN_PATH'' \<mapsto> route_Path route);
          conf = conf(''FN_MEMORY'' \<mapsto> decimal (unat (route_Memory route)));
          conf = conf(''FN_TYPE'' \<mapsto> route_Type route);
          conf = conf(''FN_TMPSIZE'' \<mapsto> decimal (unat (route_TmpFsSize route)));
          CPUs = MilliCPUs_String X (route_CPUs route)
      in if CPUs \<noteq> '''' then conf(''FN_CPUS'' \<mapsto> CPUs) else conf)"

definition buildTriggerConfig :: "App \<Rightarrow> Fn \<Rightarrow> Trigger \<Rightarrow> Config" where
  "buildTriggerConfig app fn trigger =
     (let conf = Map.empty;
          conf = conf ++ app_Config app;
          conf = conf ++ fn_Config fn;
          conf = conf(''FN_FORMAT'' \<mapsto> fn_Format fn);
          conf = conf(''FN_APP_NAME'' \<mapsto> app_Name app);
          conf = conf(''FN_PATH'' \<mapsto> trigger_Source trigger);
          conf = conf(''FN_MEMORY'' \<mapsto> decimal (unat (fn_Memory fn)));
          conf = conf(''FN_TYPE'' \<mapsto> ''sync'');
          conf = conf(''FN_FN_ID'' \<mapsto> fn_ID fn)
      in conf)"

subsection \<open>Source configurators\<close>

text \<open>\<^verbatim>\<open>http.Header.Get\<close>: the first value stored under the key, or the empty string.\<close>

definition Header_Get :: "Header \<Rightarrow> string \<Rightarrow> string" where
  "Header_Get h k = (case h k of Some (v # vs) \<Rightarrow> v | _ \<Rightarrow> '''')"

text \<open>\<^verbatim>\<open>reqURL\<close> fills in the scheme and the host of the request's URL, in place.\<close>

definition reqURL :: "externals \<Rightarrow> Request \<Rightarrow> string \<times> Request" where
  "reqURL X req =
     (let u = req_URL req;
          u = (if Scheme u = ''''
               then (if \<not> req_TLS req then u\<lparr>Scheme := ''http''\<rparr> else u\<lparr>Scheme := ''https''\<rparr>)
               else u);
          u = (if Host u = '''' then u\<lparr>Host := req_Host req\<rparr> else u)
      in (URL_String X u, req\<lparr>req_URL := u\<rparr>))"

text \<open>
  \<^verbatim>\<open>setCallPayload\<close>. The goroutine writes \<^verbatim>\<open>c.Payload\<close>, a field of the embedded model: with
  a nil model the write is a nil dereference.
\<close>

fun setCallPayload ::
  "Context \<Rightarrow> reader \<Rightarrow> call \<times> world \<Rightarrow> (go_error option \<times> call \<times> world) result" where
  "setCallPayload ctx (Delivers data) (c, s) =
     (case Call c of
        None \<Rightarrow> Panics
      | Some m \<Rightarrow> Returns (None, c\<lparr>Call := Some (m\<lparr>Payload := data\<rparr>)\<rparr>, s))"
| "setCallPayload ctx (ReadFails err) (c, s) = Returns (Some err, c, s)"
| "setCallPayload ctx (Cancelled err) (c, s) = Returns (Some err, c, s)"

text \<open>
  \<^verbatim>\<open>FromRequest(app, route, req)\<close>. \<open>route\<close> and \<open>req\<close> are the addresses of the caller's route
  and request; \<open>now\<close> is what \<^verbatim>\<open>time.Now()\<close> returns and \<open>newid\<close> what
  \<^verbatim>\<open>id.New().String()\<close> returns.
\<close>

definition FromRequest ::
  "externals \<Rightarrow> DateTime \<Rightarrow> string \<Rightarrow> App \<Rightarrow> nat \<Rightarrow> nat \<Rightarrow> CallOpt" where
  "FromRequest X now newid app route req = (\<lambda>ctx (c, s).
     case requests s req of
       None \<Rightarrow> Panics
     | Some rq \<Rightarrow>
     (case routes s route of
       None \<Rightarrow> Panics
     | Some r \<Rightarrow>
       (let contentType = Header_Get (req_Header rq) ''Content-Type'';
            (c, r, s) =
              (case ParseMediaType X contentType of
                 Inl err \<Rightarrow> (c, r, emit [Debugf ''Could not parse Content-Type header: '' err] s)
               | Inr (t, ps) \<Rightarrow>
                   if t = ceMimeType
                   then (c\<lparr>IsCloudEvent := True\<rparr>, r\<lparr>route_Format := FormatCloudEvent\<rparr>, s)
                   else (c, r, s));
            r = (if route_Format r = '''' then r\<lparr>route_Format := FormatDefault\<rparr> else r);
            s = s\<lparr>routes := (routes s)(route \<mapsto> r)\<rparr>;
            s = (case call_w c of
                   Some ResponseWriter \<Rightarrow>
                     emit (HeaderAdd ''FN_CALL_ID'' newid #
                           concat (map (\<lambda>(k, vs). map (HeaderAdd k) vs) (route_Headers r))) s
                 | _ \<Rightarrow> s)
        in case Validate X r of
             Some err \<Rightarrow> Returns (Some err, c, s)
           | None \<Rightarrow>
             (let syslogURL = (case app_SyslogURL app of Some u \<Rightarrow> u | None \<Rightarrow> '''');
                  (url, rq') = reqURL X rq;
                  s = s\<lparr>requests := (requests s)(req \<mapsto> rq')\<rparr>;
                  c = c\<lparr>Call := Some (zeroCall
                        \<lparr>ID := newid,
                         Path := route_Path r,
                         Image := route_Image r,
                         Type := route_Type r,
                         Format := route_Format r,
                         Priority := Some 0,
                         Timeout := route_Timeout r,
                         IdleTimeout := route_IdleTimeout r,
                         TmpFsSize := route_TmpFsSize r,
                         Memory := route_Memory r,
                         CPUs := route_CPUs r,
                         Config := buildConfig X app r,
                         Annotations := MergeChange X (app_Annotations app) (route_Annotations r),
                         Headers := req_Header rq,
                         CreatedAt := now,
                         URL := url,
                         Method := req_Method rq,
                         AppID := app_ID app,
                         SyslogURL := syslogURL\<rparr>)\<rparr>
              in setCallPayload ctx (req_Body rq) (c, s)))))"

text \<open>
  An \<^verbatim>\<open>interface{}\<close> value of the extension map of a cloud event: a pointer to an app, a
  function or a trigger (nil being \<open>None\<close>), or a value of any other type. A key that is
  absent from the map reads as the nil interface, which no type assertion accepts.
\<close>

datatype iface =
    AppPtr "App option"
  | FnPtr "Fn option"
  | TriggerPtr "Trigger option"
  | OtherValue

text \<open>\<^verbatim>\<open>event.Extensions\<close>: a \<^verbatim>\<open>map[string]interface{}\<close>, or a value of another type.\<close>

datatype extensions_value = ExtMap "string \<rightharpoonup> iface" | NotAMap

record CloudEvent =
  Extensions :: extensions_value

definition FromEvent :: "externals \<Rightarrow> string \<Rightarrow> CloudEvent \<Rightarrow> CallOpt" where
  "FromEvent X newid event = (\<lambda>ctx (c, s).
     case Extensions event of
       NotAMap \<Rightarrow>
         Returns (Some (ErrorString ''cloud event extensions must be marshaled with known type''),
                  c, s)
     | ExtMap ext \<Rightarrow>
       (case ext ''app'' of
          Some (AppPtr app) \<Rightarrow>
          (case ext ''fn'' of
             Some (FnPtr fn) \<Rightarrow>
             (case ext ''fn'' of
                Some (TriggerPtr trigger) \<Rightarrow>
                (case (app, fn, trigger) of
                   (Some app, Some fn, Some trigger) \<Rightarrow>
                   (let syslogURL = (case app_SyslogURL app of Some u \<Rightarrow> u | None \<Rightarrow> '''');
                        c = c\<lparr>Call := Some (zeroCall
                              \<lparr>ID := newid,
                               Image := fn_Image fn,
                               Timeout := fn_Timeout fn,
                               IdleTimeout := fn_IdleTimeout fn,
                               TmpFsSize := 0,
                               Memory := fn_Memory fn,
                               CPUs := 0,
                               SyslogURL := syslogURL,
                               Annotations :=
                                 MergeChange X
                                   (MergeChange X (app_Annotations app) (fn_Annotations fn))
                                   (trigger_Annotations trigger),
                               Type := ''sync'',
                               Format := ''cloudevent''\<rparr>)\<rparr>
                    in Returns (None, c, s))
                 | _ \<Rightarrow> Panics)
              | _ \<Rightarrow> Panics)
           | _ \<Rightarrow> Panics)
        | _ \<Rightarrow> Panics))"

text \<open>
  \<^verbatim>\<open>FromHTTPTriggerRequest(app, fn, trigger, req)\<close>; \<open>fn\<close> and \<open>req\<close> are addresses.
\<close>

definition FromHTTPTriggerRequest ::
  "externals \<Rightarrow> DateTime \<Rightarrow> string \<Rightarrow> App \<Rightarrow> nat \<Rightarrow> Trigger \<Rightarrow> nat \<Rightarrow> CallOpt" where
  "FromHTTPTriggerRequest X now newid app fn trigger req = (\<lambda>ctx (c, s).
     case requests s req of
       None \<Rightarrow> Panics
     | Some rq \<Rightarrow>
     (case fns s fn of
       None \<Rightarrow> Panics
     | Some f \<Rightarrow>
       (let contentType = Header_Get (req_Header rq) ''Content-Type'';
            (c, f, s) =
              (case ParseMediaType X contentType of
                 Inl err \<Rightarrow> (c, f, emit [Debugf ''Could not parse Content-Type header: '' err] s)
               | Inr (t, ps) \<Rightarrow>
                   if t = ceMimeType
                   then (c\<lparr>IsCloudEvent := True\<rparr>, f\<lparr>fn_Format := FormatCloudEvent\<rparr>, s)
                   else (c, f, s));
            f = (if fn_Format f = '''' then f\<lparr>fn_Format := FormatDefault\<rparr> else f);
            s = s\<lparr>fns := (fns s)(fn \<mapsto> f)\<rparr>;
            s = (case call_w c of
                   Some ResponseWriter \<Rightarrow> emit [HeaderAdd ''FN_CALL_ID'' newid] s
                 | _ \<Rightarrow> s);
            syslogURL = (case app_SyslogURL app of Some u \<Rightarrow> u | None \<Rightarrow> '''');
            (url, rq') = reqURL X rq;
            s = s\<lparr>requests := (requests s)(req \<mapsto> rq')\<rparr>;
            c = c\<lparr>Call := Some (zeroCall
                  \<lparr>ID := newid,
                   Path := trigger_Source trigger,
                   Image := fn_Image f,
                   Type := ''sync'',
                   Format := fn_Format f,
                   Priority := Some 0,
                   Timeout := fn_Timeout f,
                   IdleTimeout := fn_IdleTimeout f,
                   TmpFsSize := 0,
                   Memory := fn_Memory f,
                   CPUs := 0,
                   Config := buildTriggerConfig app f trigger,
                   Annotations :=
                     MergeChange X (MergeChange X (app_Annotations app) (fn_Annotations f))
                       (trigger_Annotations trigger),
                   Headers := req_Header rq,
                   CreatedAt := now,
                   URL := url,
                   Method := req_Method rq,
                   AppID := app_ID app,
                   FnID := fn_ID f,
                   TriggerID := trigger_ID trigger,
                   SyslogURL := syslogURL\<rparr>)\<rparr>
        in setCallPayload ctx (req_Body rq) (c, s))))"

definition FromModel :: "Call option \<Rightarrow> CallOpt" where
  "FromModel mCall = (\<lambda>ctx (c, s). Returns (None, c\<lparr>Call := mCall\<rparr>, s))"

definition FromModelAndInput :: "Call option \<Rightarrow> reader \<Rightarrow> CallOpt" where
  "FromModelAndInput mCall input = (\<lambda>ctx (c, s). setCallPayload ctx input (c\<lparr>Call := mCall\<rparr>, s))"

definition WithWriter :: "Writer option \<Rightarrow> CallOpt" where
  "WithWriter wr = (\<lambda>ctx (c, s). Returns (None, c\<lparr>call_w := wr\<rparr>, s))"

definition WithExtensions :: "(string \<rightharpoonup> string) option \<Rightarrow> CallOpt" where
  "WithExtensions exts = (\<lambda>ctx (c, s). Returns (None, c\<lparr>extensions := exts\<rparr>, s))"

subsection \<open>Assembly and admission\<close>

text \<open>
  The agent, by what \<^verbatim>\<open>GetCall\<close> uses of it: the optional call overrider, which is given the
  model and the extensions and may rewrite both; \<^verbatim>\<open>a.resources.IsResourcePossible\<close>; the
  call handler \<^verbatim>\<open>a.da\<close>; the agent as a \<^verbatim>\<open>callTrigger\<close>; and \<^verbatim>\<open>a.cfg.MaxLogSize\<close>.
\<close>

record agent =
  callOverrider ::
    "(Call \<Rightarrow> (string \<rightharpoonup> string) option
        \<Rightarrow> Call \<times> (string \<rightharpoonup> string) option \<times> go_error option) option"
  IsResourcePossible :: "64 word \<Rightarrow> 64 word \<Rightarrow> bool \<Rightarrow> bool"
  da :: CallHandler
  agent_ct :: callTrigger
  MaxLogSize :: "64 word"

text \<open>The loop of \<^verbatim>\<open>GetCall\<close> over its options.\<close>

fun apply_opts ::
  "Context \<Rightarrow> CallOpt list \<Rightarrow> call \<times> world \<Rightarrow> (go_error option \<times> call \<times> world) result" where
  "apply_opts ctx [] (c, s) = Returns (None, c, s)"
| "apply_opts ctx (opt # opts) (c, s) =
     (case opt ctx (c, s) of
        Panics \<Rightarrow> Panics
      | Returns (Some err, c', s') \<Rightarrow> Returns (Some err, c', s')
      | Returns (None, c', s') \<Rightarrow> apply_opts ctx opts (c', s'))"

text \<open>
  \<^verbatim>\<open>GetCall\<close> returns the call or an error; a returned error comes with a nil call.
\<close>

definition GetCall ::
  "externals \<Rightarrow> agent \<Rightarrow> Context \<Rightarrow> CallOpt list \<Rightarrow> world \<Rightarrow> ((go_error + call) \<times> world) result"
  where
  "GetCall X a ctx opts s0 =
     (case apply_opts ctx opts (zero_call, s0) of
        Panics \<Rightarrow> Panics
      | Returns (Some err, c, s) \<Rightarrow> Returns (Inl err, s)
      | Returns (None, c, s) \<Rightarrow>
        (case Call c of
           None \<Rightarrow> Returns (Inl (ErrorString ''no model or request provided for call''), s)
         | Some m \<Rightarrow>
           (let (err, m, c, s) =
                  (case callOverrider a of
                     None \<Rightarrow> (None, m, c, s)
                   | Some overrider \<Rightarrow>
                       (let s = emit [Overrider m (extensions c)] s;
                            (m, ext, err) = overrider m (extensions c)
                        in case err of
                             Some e \<Rightarrow> (Some e, m, c\<lparr>Call := Some m\<rparr>, s)
                           | None \<Rightarrow> (None, m, c\<lparr>Call := Some m, extensions := ext\<rparr>, s)))
            in case err of
                 Some e \<Rightarrow> Returns (Inl e, s)
               | None \<Rightarrow>
                 (let mem = Memory m + ucast (TmpFsSize m);
                      s = emit [IsResourcePossibleCalled mem (CPUs m) (Type m = TypeAsync)] s
                  in if \<not> IsResourcePossible a mem (CPUs m) (Type m = TypeAsync)
                     then Returns (Inl ErrCallTimeoutServerBusy, s)
                     else
                       (let c = setupCtx X c;
                            c = c\<lparr>handler := Some (da a)\<rparr>;
                            c = c\<lparr>call_ct := Some (agent_ct a)\<rparr>;
                            st = setupLogger X ctx (MaxLogSize a) (Call c);
                            c = c\<lparr>stderr := Some st\<rparr>;
                            c = (if call_w c = None then c\<lparr>call_w := Some (Stream st)\<rparr> else c)
                        in Returns (Inr c, s))))))"

subsection \<open>Lifecycle\<close>

text \<open>
  \<^verbatim>\<open>Start\<close>; \<open>now\<close> is what \<^verbatim>\<open>time.Now()\<close> returns. The span that \<^verbatim>\<open>trace.StartSpan\<close> opens is
  not modelled: the derived context has the error of the one it comes from.
\<close>

definition Start ::
  "externals \<Rightarrow> DateTime \<Rightarrow> Context \<Rightarrow> call \<times> world \<Rightarrow> (go_error option \<times> call \<times> world) result"
  where
  "Start X now ctx = (\<lambda>(c, s).
     case Err ctx of
       Some err \<Rightarrow> Returns (Some err, c, s)
     | None \<Rightarrow>
       (case Call c of
          None \<Rightarrow> Panics
        | Some m \<Rightarrow>
          (let m = m\<lparr>StartedAt := now\<rparr>;
               m = m\<lparr>Status := ''running''\<rparr>;
               c = c\<lparr>Call := Some m\<rparr>;
               s = (if \<not> isLB c
                    then (case call_w c of
                            Some ResponseWriter \<Rightarrow>
                              emit [HeaderSet ''XXX-FXLB-WAIT''
                                      (Duration_String X (StartedAt m - CreatedAt m))] s
                          | _ \<Rightarrow> s)
                    else s);
               started =
                 (if Type m = TypeAsync
                  then (case handler c of
                          None \<Rightarrow> Panics
                        | Some h \<Rightarrow> Returns (handler_Start h ctx m, emit [HandlerStart m] s))
                  else Returns (None, s))
           in case started of
                Panics \<Rightarrow> Panics
              | Returns (Some err, s) \<Rightarrow> Returns (Some err, c, s)
              | Returns (None, s) \<Rightarrow>
                (case call_ct c of
                   None \<Rightarrow> Panics
                 | Some t \<Rightarrow>
                   (let s = emit [BeforeCall m] s
                    in case fireBeforeCall t ctx m of
                         Some err \<Rightarrow> Returns (Some (Errorf ''BeforeCall: '' err), c, s)
                       | None \<Rightarrow> Returns (None, c, s))))))"

text \<open>\<^verbatim>\<open>End\<close>; \<open>now\<close> is what \<^verbatim>\<open>time.Now()\<close> returns.\<close>

definition End ::
  "DateTime \<Rightarrow> Context \<Rightarrow> go_error option \<Rightarrow> call \<times> world
     \<Rightarrow> (go_error option \<times> call \<times> world) result"
  where
  "End now ctx errIn = (\<lambda>(c, s).
     case Call c of
       None \<Rightarrow> Panics
     | Some m \<Rightarrow>
       (let m = m\<lparr>CompletedAt := now\<rparr>;
            m = (case errIn of
                   None \<Rightarrow> m\<lparr>Status := ''success''\<rparr>
                 | Some DeadlineExceeded \<Rightarrow> m\<lparr>Status := ''timeout''\<rparr>
                 | Some err \<Rightarrow> m\<lparr>Status := ''error'', Error := errorMessage err\<rparr>);
            m = m\<lparr>Stats := Decimate 240 (Stats m)\<rparr>;
            c = c\<lparr>Call := Some m\<rparr>
        in case handler c of
             None \<Rightarrow> Panics
           | Some h \<Rightarrow>
             (let s = emit [HandlerFinish m (stderr c) (Type m = TypeAsync)] s;
                  s = (case handler_Finish h ctx m (stderr c) (Type m = TypeAsync) of
                         Some err \<Rightarrow> emit [LogError ''error finalizing call on datastore/mq'' err] s
                       | None \<Rightarrow> s)
              in case stderr c of
                   None \<Rightarrow> Panics
                 | Some st \<Rightarrow>
                   (let s = emit [StderrClose st] s
                    in case call_ct c of
                         None \<Rightarrow> Panics
                       | Some t \<Rightarrow>
                         (let s = emit [AfterCall m] s
                          in case fireAfterCall t ctx m of
                               Some err \<Rightarrow> Returns (Some (Errorf ''AfterCall: '' err), c, s)
                             | None \<Rightarrow> Returns (errIn, c, s))))))"

subsection \<open>Example values\<close>

text \<open>
  Concrete collaborators and objects on which the theorems below are exercised. The
  parser takes the text before the first semicolon as the media type and fails on the
  empty string; the route validation asks for an image.
\<close>

definition exampleExternals :: externals where
  "exampleExternals =
     \<lparr>ParseMediaType =
        (\<lambda>v. if v = '''' then Inl (Foreign 1 ''mime: no media type'')
             else Inr (takeWhile (\<lambda>ch. ch \<noteq> CHR '';'') v, Map.empty)),
      Validate =
        (\<lambda>r. if route_Image r = '''' then Some (Foreign 2 ''Missing route Image'') else None),
      MergeChange = (\<lambda>a b. a ++ b),
      MilliCPUs_String = (\<lambda>n. if n = 0 then '''' else decimal (unat n) @ ''m''),
      URL_String = (\<lambda>u. Scheme u @ ''://'' @ Host u @ RequestURI u),
      Duration_String = (\<lambda>d. decimal (nat d) @ ''ns''),
      setupCtx = (\<lambda>c. c),
      setupLogger = (\<lambda>ctx n m. 7)\<rparr>"

definition exampleApp :: App where
  "exampleApp =
     \<lparr>app_ID = ''app1'', app_Name = ''myapp'', app_Config = [''FN_PATH'' \<mapsto> ''/user''],
      app_Annotations = Map.empty, app_SyslogURL = None\<rparr>"

definition exampleRoute :: Route where
  "exampleRoute =
     \<lparr>route_Path = ''/hello'', route_Image = ''fnproject/hello'', route_Type = ''sync'',
      route_Format = '''', route_Timeout = 30, route_IdleTimeout = 30, route_TmpFsSize = 0,
      route_Memory = 128, route_CPUs = 0, route_Config = [''FN_MEMORY'' \<mapsto> ''1''],
      route_Annotations = Map.empty, route_Headers = []\<rparr>"

definition exampleFn :: Fn where
  "exampleFn =
     \<lparr>fn_ID = ''fn1'', fn_Image = ''fnproject/hello'', fn_Format = '''', fn_Timeout = 30,
      fn_IdleTimeout = 30, fn_Memory = 128, fn_Config = Map.empty,
      fn_Annotations = Map.empty\<rparr>"

definition exampleTrigger :: Trigger where
  "exampleTrigger =
     \<lparr>trigger_ID = ''t1'', trigger_Source = ''/hello'', trigger_Annotations = Map.empty\<rparr>"

definition exampleRequest :: Request where
  "exampleRequest =
     \<lparr>req_Header = [''Content-Type'' \<mapsto> [''application/cloudevents+json; charset=UTF-8'']],
      req_Method = ''POST'', req_Host = ''localhost:8080'', req_TLS = False,
      req_URL = \<lparr>Scheme = '''', Host = '''', RequestURI = ''/r/myapp/hello''\<rparr>,
      req_Body = Delivers ''{}''\<rparr>"

definition exampleWorld :: world where
  "exampleWorld =
     \<lparr>routes = [0 \<mapsto> exampleRoute], fns = [0 \<mapsto> exampleFn],
      requests = [0 \<mapsto> exampleRequest], trace = []\<rparr>"

definition exampleContext :: Context where
  "exampleContext = \<lparr>Err = None\<rparr>"

definition exampleHandler :: CallHandler where
  "exampleHandler =
     \<lparr>handler_Start = (\<lambda>ctx m. None),
      handler_Finish = (\<lambda>ctx m st async. Some (Foreign 3 ''datastore down''))\<rparr>"

definition exampleCallTrigger :: callTrigger where
  "exampleCallTrigger =
     \<lparr>fireBeforeCall = (\<lambda>ctx m. None), fireAfterCall = (\<lambda>ctx m. None)\<rparr>"

definition exampleAgent :: agent where
  "exampleAgent =
     \<lparr>callOverrider = None, IsResourcePossible = (\<lambda>mem cpu async. mem \<le> 1024),
      da = exampleHandler, agent_ct = exampleCallTrigger, MaxLogSize = 1048576\<rparr>"

definition exampleCall :: Call where
  "exampleCall =
     zeroCall\<lparr>ID := ''01CALL'', Image := ''fnproject/hello'', Type := ''sync'',
       Format := ''default'', Memory := 128, CreatedAt := 1000\<rparr>"

text \<open>A series of 480 samples, one per time unit, and a call as \<^verbatim>\<open>GetCall\<close> hands it out.\<close>

definition exampleStats :: "Stat list" where
  "exampleStats = map (\<lambda>i. \<lparr>Timestamp = int i, Metrics = Map.empty\<rparr>) [0..<480]"

definition exampleAdmittedCall :: call where
  "exampleAdmittedCall =
     zero_call\<lparr>Call := Some (exampleCall\<lparr>Stats := exampleStats\<rparr>),
       handler := Some exampleHandler, call_w := Some ResponseWriter, stderr := Some 7,
       call_ct := Some exampleCallTrigger\<rparr>"

section \<open>Configuration synthesis\<close>

text \<open>
  C4 (amended). For every app and route, the map of \<^verbatim>\<open>buildConfig\<close> holds \<^verbatim>\<open>FN_FORMAT\<close>,
  \<^verbatim>\<open>FN_APP_NAME\<close>, \<^verbatim>\<open>FN_PATH\<close>, \<^verbatim>\<open>FN_MEMORY\<close> (the memory in decimal), \<^verbatim>\<open>FN_TYPE\<close> and
  \<^verbatim>\<open>FN_TMPSIZE\<close> (the ephemeral-storage size in decimal), whatever the user's maps say
  under those keys; \<^verbatim>\<open>FN_CPUS\<close> is the string of the CPU quantity when that string is not
  empty, and otherwise whatever the user's maps say under it. For every app, function and
  trigger, the map of \<^verbatim>\<open>buildTriggerConfig\<close> holds \<^verbatim>\<open>FN_FORMAT\<close>, \<^verbatim>\<open>FN_APP_NAME\<close>, \<^verbatim>\<open>FN_PATH\<close>
  (the trigger's source), \<^verbatim>\<open>FN_MEMORY\<close> in decimal, \<^verbatim>\<open>FN_TYPE\<close> (always sync) and
  \<^verbatim>\<open>FN_FN_ID\<close>, and it synthesizes neither \<^verbatim>\<open>FN_TMPSIZE\<close> nor \<^verbatim>\<open>FN_CPUS\<close>. Under every other
  key both maps hold the entry of the route (the function), else the entry of the app.
\<close>

theorem buildConfig_synthesized_keys:
  "buildConfig X app route ''FN_FORMAT'' = Some (route_Format route) \<and>
   buildConfig X app route ''FN_APP_NAME'' = Some (app_Name app) \<and>
   buildConfig X app route ''FN_PATH'' = Some (route_Path route) \<and>
   buildConfig X app route ''FN_MEMORY'' = Some (decimal (unat (route_Memory route))) \<and>
   buildConfig X app route ''FN_TYPE'' = Some (route_Type route) \<and>
   buildConfig X app route ''FN_TMPSIZE'' = Some (decimal (unat (route_TmpFsSize route))) \<and>
   buildConfig X app route ''FN_CPUS'' =
     (if MilliCPUs_String X (route_CPUs route) \<noteq> ''''
      then Some (MilliCPUs_String X (route_CPUs route))
      else (app_Config app ++ route_Config route) ''FN_CPUS'') \<and>
   (k \<in> {''FN_FORMAT'', ''FN_APP_NAME'', ''FN_PATH'', ''FN_MEMORY'', ''FN_TYPE'',
          ''FN_TMPSIZE'', ''FN_CPUS''} \<or>
    buildConfig X app route k = (app_Config app ++ route_Config route) k) \<and>
   buildTriggerConfig app fn trigger ''FN_FORMAT'' = Some (fn_Format fn) \<and>
   buildTriggerConfig app fn trigger ''FN_APP_NAME'' = Some (app_Name app) \<and>
   buildTriggerConfig app fn trigger ''FN_PATH'' = Some (trigger_Source trigger) \<and>
   buildTriggerConfig app fn trigger ''FN_MEMORY'' = Some (decimal (unat (fn_Memory fn))) \<and>
   buildTriggerConfig app fn trigger ''FN_TYPE'' = Some ''sync'' \<and>
   buildTriggerConfig app fn trigger ''FN_FN_ID'' = Some (fn_ID fn) \<and>
   (k \<in> {''FN_FORMAT'', ''FN_APP_NAME'', ''FN_PATH'', ''FN_MEMORY'', ''FN_TYPE'', ''FN_FN_ID''} \<or>
    buildTriggerConfig app fn trigger k = (app_Config app ++ fn_Config fn) k)"
  by (simp add: buildConfig_def buildTriggerConfig_def Let_def)

text \<open>
  On the example app and route the user's \<^verbatim>\<open>FN_PATH\<close> and \<^verbatim>\<open>FN_MEMORY\<close> entries are
  overridden, and no \<^verbatim>\<open>FN_CPUS\<close> entry is written for the empty CPU string.
\<close>

theorem buildConfig_synthesized_keys_witness:
  "buildConfig exampleExternals exampleApp exampleRoute ''FN_PATH'' = Some ''/hello'' \<and>
   buildConfig exampleExternals exampleApp exampleRoute ''FN_MEMORY'' = Some ''128'' \<and>
   buildConfig exampleExternals exampleApp exampleRoute ''FN_TMPSIZE'' = Some ''0'' \<and>
   buildConfig exampleExternals exampleApp exampleRoute ''FN_CPUS'' = None \<and>
   buildTriggerConfig exampleApp exampleFn exampleTrigger ''FN_MEMORY'' = Some ''128'' \<and>
   buildTriggerConfig exampleApp exampleFn exampleTrigger ''FN_FN_ID'' = Some ''fn1''"
  using buildConfig_synthesized_keys
          [where X = exampleExternals and app = exampleApp and route = exampleRoute
             and fn = exampleFn and trigger = exampleTrigger]
  by (simp add: exampleExternals_def exampleApp_def exampleRoute_def exampleFn_def
        exampleTrigger_def decimal.simps)

text \<open>
  The claim as stated asks for the ephemeral-storage key in the trigger configuration
  too: on the example app, function and trigger there is none.
\<close>

theorem buildTriggerConfig_has_no_tmpsize:
  "buildTriggerConfig exampleApp exampleFn exampleTrigger ''FN_TMPSIZE'' = None"
  by (simp add: buildTriggerConfig_def Let_def exampleApp_def exampleFn_def)

section \<open>Decimation\<close>

lemma subseq_map_nth_drop:
  "sorted_wrt (<) js \<Longrightarrow> \<forall>j\<in>set js. k \<le> j \<and> j < length xs \<Longrightarrow>
   subseq (map ((!) xs) js) (drop k xs)"
proof (induction js arbitrary: k)
  case Nil
  then show ?case by simp
next
  case (Cons j js)
  have j: "k \<le> j" "j < length xs" using Cons.prems(2) by auto
  have bounds: "\<forall>i\<in>set js. Suc j \<le> i \<and> i < length xs"
    using Cons.prems by auto
  have sorted: "sorted_wrt (<) js" using Cons.prems(1) by simp
  have "subseq (map ((!) xs) js) (drop (Suc j) xs)"
    using Cons.IH [OF sorted bounds] .
  then have "subseq (xs ! j # map ((!) xs) js) (xs ! j # drop (Suc j) xs)"
    by simp
  then have here: "subseq (map ((!) xs) (j # js)) (drop j xs)"
    using j(2) by (simp add: Cons_nth_drop_Suc)
  have "drop k xs = take (j - k) (drop k xs) @ drop j xs"
    using j(1) by (metis append_take_drop_id drop_drop le_add_diff_inverse2)
  then show ?case
    using here by (metis subseq_drop_many)
qed

lemma spread_strict:
  assumes "0 < n" and "n < L" and "i < (j::nat)"
  shows "i * L div n < j * L div n"
proof -
  have "i * L + n \<le> j * L"
  proof -
    have "Suc i \<le> j" using assms(3) by simp
    then have "Suc i * L \<le> j * L" by (rule mult_le_mono1)
    then show ?thesis using assms(2) by simp
  qed
  then have "(i * L + n) div n \<le> j * L div n"
    by (rule div_le_mono)
  moreover have "(i * L + n) div n = Suc (i * L div n)"
    using assms(1) by (simp add: div_add_self2)
  ultimately show ?thesis by simp
qed

lemma spread_bound:
  assumes "0 < L" and "i < (n::nat)"
  shows "i * L div n < L"
proof -
  have "i * L < n * L" using assms by simp
  then have "i * L < L * n" by (simp add: mult.commute)
  moreover have "0 < n" using assms(2) by simp
  ultimately show ?thesis by (simp add: div_less_iff_less_mult)
qed

lemma length_Decimate: "length (Decimate n xs) = min n (length xs)"
  by (simp add: Decimate_def)

lemma subseq_Decimate: "subseq (Decimate n xs) xs"
proof (cases "length xs \<le> n")
  case True
  then show ?thesis by (simp add: Decimate_def)
next
  case False
  let ?f = "\<lambda>i. i * length xs div n"
  have dec: "Decimate n xs = map ((!) xs) (map ?f [0..<n])"
    using False by (simp add: Decimate_def comp_def)
  show ?thesis
  proof (cases "n = 0")
    case True
    then show ?thesis by (auto simp: Decimate_def)
  next
    case n: False
    have "sorted_wrt (<) (map ?f [0..<n])"
      using n False by (simp add: sorted_wrt_map sorted_wrt_iff_nth_less spread_strict)
    moreover have "\<forall>j\<in>set (map ?f [0..<n]). 0 \<le> j \<and> j < length xs"
    proof -
      have "0 < length xs" using False by (cases xs) auto
      then show ?thesis by (auto intro: spread_bound)
    qed
    ultimately have "subseq (map ((!) xs) (map ?f [0..<n])) (drop 0 xs)"
      by (rule subseq_map_nth_drop)
    then show ?thesis by (simp add: dec)
  qed
qed

lemma sorted_wrt_subseq:
  "subseq xs ys \<Longrightarrow> sorted_wrt P ys \<Longrightarrow> sorted_wrt P xs"
  by (induction rule: list_emb.induct) (auto dest: list_emb_set)

lemma sorted_Decimate:
  assumes "sorted (map f xs)"
  shows "sorted (map f (Decimate n xs))"
proof -
  have "subseq (map f (Decimate n xs)) (map f xs)"
    using subseq_Decimate by (rule subseq_map)
  then show ?thesis using assms by (rule sorted_wrt_subseq)
qed

section \<open>Lifecycle\<close>

text \<open>
  What \<^verbatim>\<open>End\<close> does on a call that has its model, its handler, its log stream and its
  call trigger, as every call from \<^verbatim>\<open>GetCall\<close> has: the model it builds, the value it
  returns and the effects, in their order.
\<close>

lemma End_returns:
  assumes "Call c = Some m" and "handler c = Some h" and "stderr c = Some st"
    and "call_ct c = Some t"
    and "m1 = (case errIn of
                 None \<Rightarrow> m\<lparr>CompletedAt := now, Status := ''success''\<rparr>
               | Some e \<Rightarrow>
                   if e = DeadlineExceeded then m\<lparr>CompletedAt := now, Status := ''timeout''\<rparr>
                   else m\<lparr>CompletedAt := now, Status := ''error'', Error := errorMessage e\<rparr>)"
    and "m2 = m1\<lparr>Stats := Decimate 240 (Stats m)\<rparr>"
    and "async = (Type m = TypeAsync)"
  shows "End now ctx errIn (c, s) =
     Returns
       (case fireAfterCall t ctx m2 of
          Some e \<Rightarrow> Some (Errorf ''AfterCall: '' e)
        | None \<Rightarrow> errIn,
        c\<lparr>Call := Some m2\<rparr>,
        emit ([HandlerFinish m2 (Some st) async] @
              (case handler_Finish h ctx m2 (Some st) async of
                 Some e \<Rightarrow> [LogError ''error finalizing call on datastore/mq'' e]
               | None \<Rightarrow> []) @
              [StderrClose st, AfterCall m2]) s)"
  using assms
  by (simp add: End_def emit_def Let_def split: option.splits go_error.splits)

text \<open>
  C7. \<^verbatim>\<open>Start\<close> with a context that is already done returns the context's own error and
  leaves the call and the world as they were: the status and the start time are not
  written, no header is set, and neither the handler's \<^verbatim>\<open>Start\<close> nor \<^verbatim>\<open>BeforeCall\<close> is
  called (the trace is unchanged).
\<close>

theorem Start_done_context:
  assumes "Err ctx = Some err"
  shows "Start X now ctx (c, s) = Returns (Some err, c, s)"
  using assms by (simp add: Start_def)

theorem Start_done_context_witness:
  "Start exampleExternals 2000 \<lparr>Err = Some Canceled\<rparr> (exampleAdmittedCall, exampleWorld) =
     Returns (Some Canceled, exampleAdmittedCall, exampleWorld)"
  by (rule Start_done_context) simp

text \<open>
  C2. \<^verbatim>\<open>End\<close> sets the completion time, and the status from the error of the execution:
  success for nil, timeout for \<^verbatim>\<open>context.DeadlineExceeded\<close>, and error for any other error,
  whose message it records in the field \<^verbatim>\<open>Error\<close>.
\<close>

theorem End_sets_status:
  assumes "Call c = Some m" and "handler c = Some h" and "stderr c = Some st"
    and "call_ct c = Some t"
  shows "\<exists>ret c' s' m'. End now ctx errIn (c, s) = Returns (ret, c', s') \<and>
     Call c' = Some m' \<and> CompletedAt m' = now \<and>
     Status m' =
       (if errIn = None then ''success''
        else if errIn = Some DeadlineExceeded then ''timeout'' else ''error'') \<and>
     Error m' =
       (case errIn of
          None \<Rightarrow> Error m
        | Some e \<Rightarrow> if e = DeadlineExceeded then Error m else errorMessage e)"
  by (subst End_returns [OF assms refl refl refl]) (simp split: option.splits)

theorem End_sets_status_witness:
  "\<exists>ret c' s' m'.
     End 2000 exampleContext (Some (Foreign 9 ''exit status 1''))
       (exampleAdmittedCall, exampleWorld) = Returns (ret, c', s') \<and>
     Call c' = Some m' \<and> CompletedAt m' = 2000 \<and> Status m' = ''error'' \<and>
     Error m' = ''exit status 1''"
  using End_sets_status
          [where c = exampleAdmittedCall and m = "exampleCall\<lparr>Stats := exampleStats\<rparr>"
             and h = exampleHandler and st = 7 and t = exampleCallTrigger and now = 2000
             and ctx = exampleContext and errIn = "Some (Foreign 9 ''exit status 1'')"
             and s = exampleWorld]
  by (simp add: exampleAdmittedCall_def zero_call_def)

text \<open>
  C8. \<^verbatim>\<open>End\<close> calls \<^verbatim>\<open>Finish\<close>, logs its error if it returns one, closes the log stream and
  then fires \<^verbatim>\<open>AfterCall\<close>, in this order and whether or not \<^verbatim>\<open>Finish\<close> failed. It returns the
  error of \<^verbatim>\<open>AfterCall\<close> behind the prefix \<^verbatim>\<open>AfterCall: \<close> if there is one, and the error it was
  given otherwise. With any other \<^verbatim>\<open>Finish\<close> in place of the handler's, the returned value
  and the model of the call, with its status, are the same.
\<close>

theorem End_hook_errors:
  assumes "Call c = Some m" and "handler c = Some h" and "stderr c = Some st"
    and "call_ct c = Some t"
  shows "\<exists>ret m' s'. End now ctx errIn (c, s) = Returns (ret, c\<lparr>Call := Some m'\<rparr>, s') \<and>
     ret = (case fireAfterCall t ctx m' of
              Some e \<Rightarrow> Some (ErrorString (''AfterCall: '' @ errorMessage e))
            | None \<Rightarrow> errIn) \<and>
     trace s' =
       trace s @ [HandlerFinish m' (Some st) (Type m = TypeAsync)] @
       (case handler_Finish h ctx m' (Some st) (Type m = TypeAsync) of
          Some e \<Rightarrow> [LogError ''error finalizing call on datastore/mq'' e]
        | None \<Rightarrow> []) @
       [StderrClose st, AfterCall m'] \<and>
     (\<forall>finish. \<exists>s''.
        End now ctx errIn (c\<lparr>handler := Some (h\<lparr>handler_Finish := finish\<rparr>)\<rparr>, s) =
          Returns (ret, c\<lparr>handler := Some (h\<lparr>handler_Finish := finish\<rparr>), Call := Some m'\<rparr>, s''))"
proof -
  have other: "Call (c\<lparr>handler := Some h'\<rparr>) = Some m" "handler (c\<lparr>handler := Some h'\<rparr>) = Some h'"
    "stderr (c\<lparr>handler := Some h'\<rparr>) = Some st" "call_ct (c\<lparr>handler := Some h'\<rparr>) = Some t"
    for h'
    using assms by simp_all
  show ?thesis
    by (subst End_returns [OF assms refl refl refl], (subst End_returns [OF other refl refl refl])?)
       (simp add: emit_def Errorf_def cong: option.case_cong)
qed

theorem End_hook_errors_witness:
  "\<exists>ret m' s'.
     End 2000 exampleContext None (exampleAdmittedCall, exampleWorld) =
       Returns (ret, exampleAdmittedCall\<lparr>Call := Some m'\<rparr>, s') \<and>
     ret = None \<and>
     trace s' =
       [HandlerFinish m' (Some 7) False,
        LogError ''error finalizing call on datastore/mq'' (Foreign 3 ''datastore down''),
        StderrClose 7, AfterCall m']"
  using End_hook_errors
          [where c = exampleAdmittedCall and m = "exampleCall\<lparr>Stats := exampleStats\<rparr>"
             and h = exampleHandler and st = 7 and t = exampleCallTrigger and now = 2000
             and ctx = exampleContext and errIn = None and s = exampleWorld]
  by (simp add: exampleAdmittedCall_def zero_call_def exampleWorld_def exampleCall_def
        TypeAsync_def exampleHandler_def exampleCallTrigger_def) blast

text \<open>
  C9. When the execution left more than 240 samples, the model that \<^verbatim>\<open>End\<close> hands to
  \<^verbatim>\<open>Finish\<close>, which is the one the call keeps, has exactly 240 of them: a subsequence of
  the raw series, hence in time order when the raw series is. The series is decimated
  before \<^verbatim>\<open>Finish\<close> is called: \<^verbatim>\<open>Finish\<close> is the first effect of \<^verbatim>\<open>End\<close> and is given the
  decimated series.
\<close>

theorem End_decimates_before_Finish:
  assumes "Call c = Some m" and "handler c = Some h" and "stderr c = Some st"
    and "call_ct c = Some t" and "240 < length (Stats m)"
  shows "\<exists>ret m' s' rest. End now ctx errIn (c, s) = Returns (ret, c\<lparr>Call := Some m'\<rparr>, s') \<and>
     length (Stats m') = 240 \<and> subseq (Stats m') (Stats m) \<and>
     (sorted (map Timestamp (Stats m)) \<longrightarrow> sorted (map Timestamp (Stats m'))) \<and>
     trace s' = trace s @ HandlerFinish m' (Some st) (Type m = TypeAsync) # rest"
proof -
  have "length (Decimate 240 (Stats m)) = 240"
    using assms(5) by (simp add: length_Decimate)
  moreover have "subseq (Decimate 240 (Stats m)) (Stats m)"
    by (rule subseq_Decimate)
  moreover have "sorted (map Timestamp (Stats m)) \<longrightarrow>
      sorted (map Timestamp (Decimate 240 (Stats m)))"
    by (simp add: sorted_Decimate)
  ultimately show ?thesis
    by (subst End_returns [OF assms(1-4) refl refl refl]) (simp add: emit_def)
qed

lemma exampleStats_sorted: "sorted (map Timestamp exampleStats)"
proof -
  have "map Timestamp exampleStats = map int [0..<480]"
    by (simp add: exampleStats_def comp_def)
  moreover have "sorted (map int [0..<480])"
    by (simp add: sorted_map sorted_wrt_iff_nth_less)
  ultimately show ?thesis by simp
qed

theorem End_decimates_before_Finish_witness:
  "\<exists>ret m' s' rest.
     End 2000 exampleContext None (exampleAdmittedCall, exampleWorld) =
       Returns (ret, exampleAdmittedCall\<lparr>Call := Some m'\<rparr>, s') \<and>
     length (Stats m') = 240 \<and> subseq (Stats m') exampleStats \<and>
     sorted (map Timestamp (Stats m')) \<and>
     trace s' = HandlerFinish m' (Some 7) False # rest"
  using End_decimates_before_Finish
          [where c = exampleAdmittedCall and m = "exampleCall\<lparr>Stats := exampleStats\<rparr>"
             and h = exampleHandler and st = 7 and t = exampleCallTrigger and now = 2000
             and ctx = exampleContext and errIn = None and s = exampleWorld]
        exampleStats_sorted
  by (simp add: exampleAdmittedCall_def zero_call_def exampleWorld_def exampleCall_def
        TypeAsync_def exampleStats_def)

section \<open>Source configurators\<close>

lemma formats_not_empty: "FormatCloudEvent \<noteq> ''''" "FormatDefault \<noteq> ''''"
  by (simp_all add: FormatCloudEvent_def FormatDefault_def)

text \<open>
  The result of \<^verbatim>\<open>FromRequest\<close> on a route and a request that exist, by whether the
  content type parses to the cloud-event media type (\<open>isCE\<close>).
\<close>

lemma FromRequest_result:
  assumes "requests s req = Some rq" and "routes s route = Some r"
    and "isCE = (case ParseMediaType X (Header_Get (req_Header rq) ''Content-Type'') of
                   Inl e \<Rightarrow> False
                 | Inr (t, ps) \<Rightarrow> t = ceMimeType)"
    and "fmtR = (if isCE then FormatCloudEvent
                 else if route_Format r = '''' then FormatDefault else route_Format r)"
    and "bodyErr = (case req_Body rq of
                      Delivers d \<Rightarrow> None | ReadFails e \<Rightarrow> Some e | Cancelled e \<Rightarrow> Some e)"
  shows "\<exists>err c' s'.
            FromRequest X now newid app route req ctx (c, s) = Returns (err, c', s') \<and>
            IsCloudEvent c' = (isCE \<or> IsCloudEvent c) \<and>
            routes s' route = Some (r\<lparr>route_Format := fmtR\<rparr>) \<and>
            (case Validate X (r\<lparr>route_Format := fmtR\<rparr>) of
               Some e \<Rightarrow> err = Some e \<and> Call c' = Call c
             | None \<Rightarrow> (\<exists>m. Call c' = Some m \<and> Format m = fmtR) \<and> err = bodyErr)"
proof -
  obtain url rq' where u: "reqURL X rq = (url, rq')"
    by (cases "reqURL X rq")
  let ?P = "ParseMediaType X (Header_Get (req_Header rq) ''Content-Type'')"
  consider (ce) ps where "?P = Inr (ceMimeType, ps)"
    | (other) t ps where "?P = Inr (t, ps)" and "t \<noteq> ceMimeType"
    | (err) e where "?P = Inl e"
    by (cases ?P) auto
  then show ?thesis
  proof cases
    case ce
    then show ?thesis
      using assms u formats_not_empty
      by (cases "Validate X (r\<lparr>route_Format := FormatCloudEvent\<rparr>)"; cases "req_Body rq")
         (simp_all add: FromRequest_def Let_def emit_def split: option.split Writer.split)
  next
    case other
    then show ?thesis
      using assms u formats_not_empty
      by (cases "route_Format r = ''''";
          cases "Validate X (r\<lparr>route_Format := fmtR\<rparr>)"; cases "req_Body rq")
         (simp_all add: FromRequest_def Let_def emit_def split: option.split Writer.split)
  next
    case err
    then show ?thesis
      using assms u formats_not_empty
      by (cases "route_Format r = ''''";
          cases "Validate X (r\<lparr>route_Format := fmtR\<rparr>)"; cases "req_Body rq")
         (simp_all add: FromRequest_def Let_def emit_def split: option.split Writer.split)
  qed
qed

lemma FromHTTPTriggerRequest_result:
  assumes "requests s req = Some rq" and "fns s fn = Some f"
    and "isCE = (case ParseMediaType X (Header_Get (req_Header rq) ''Content-Type'') of
                   Inl e \<Rightarrow> False
                 | Inr (t, ps) \<Rightarrow> t = ceMimeType)"
    and "fmtF = (if isCE then FormatCloudEvent
                 else if fn_Format f = '''' then FormatDefault else fn_Format f)"
    and "bodyErr = (case req_Body rq of
                      Delivers d \<Rightarrow> None | ReadFails e \<Rightarrow> Some e | Cancelled e \<Rightarrow> Some e)"
  shows "\<exists>err c' s'.
            FromHTTPTriggerRequest X now newid app fn trigger req ctx (c, s) =
              Returns (err, c', s') \<and>
            IsCloudEvent c' = (isCE \<or> IsCloudEvent c) \<and>
            fns s' fn = Some (f\<lparr>fn_Format := fmtF\<rparr>) \<and>
            (\<exists>m. Call c' = Some m \<and> Format m = fmtF) \<and> err = bodyErr"
proof -
  obtain url rq' where u: "reqURL X rq = (url, rq')"
    by (cases "reqURL X rq")
  let ?P = "ParseMediaType X (Header_Get (req_Header rq) ''Content-Type'')"
  consider (ce) ps where "?P = Inr (ceMimeType, ps)"
    | (other) t ps where "?P = Inr (t, ps)" and "t \<noteq> ceMimeType"
    | (err) e where "?P = Inl e"
    by (cases ?P) auto
  then show ?thesis
  proof cases
    case ce
    then show ?thesis
      using assms u formats_not_empty
      by (cases "req_Body rq")
         (simp_all add: FromHTTPTriggerRequest_def Let_def emit_def
            split: option.split Writer.split)
  next
    case other
    then show ?thesis
      using assms u formats_not_empty
      by (cases "fn_Format f = ''''"; cases "req_Body rq")
         (simp_all add: FromHTTPTriggerRequest_def Let_def emit_def
            split: option.split Writer.split)
  next
    case err
    then show ?thesis
      using assms u formats_not_empty
      by (cases "fn_Format f = ''''"; cases "req_Body rq")
         (simp_all add: FromHTTPTriggerRequest_def Let_def emit_def
            split: option.split Writer.split)
  qed
qed

text \<open>
  C5. Let the content type of the request parse to the cloud-event media type (\<open>isCE\<close>) or
  not (another type, or a parse error). \<^verbatim>\<open>FromRequest\<close> and \<^verbatim>\<open>FromHTTPTriggerRequest\<close> return
  (they do not panic on a route, function and request that exist); the event flag of the
  call is set when \<open>isCE\<close> and is otherwise as it was; the format of the model they build
  is the cloud-event format when \<open>isCE\<close>, and otherwise the format of the route (function),
  or the default format when that is empty. The error they return is the one of the
  route's validation (for \<^verbatim>\<open>FromRequest\<close>, which then builds no model), else the one of
  reading the body: none comes from the content type.
\<close>

theorem content_type_sniffing:
  assumes "requests s req = Some rq" and "routes s route = Some r" and "fns s fn = Some f"
    and "isCE = (case ParseMediaType X (Header_Get (req_Header rq) ''Content-Type'') of
                   Inl e \<Rightarrow> False
                 | Inr (t, ps) \<Rightarrow> t = ceMimeType)"
    and "fmtR = (if isCE then FormatCloudEvent
                 else if route_Format r = '''' then FormatDefault else route_Format r)"
    and "fmtF = (if isCE then FormatCloudEvent
                 else if fn_Format f = '''' then FormatDefault else fn_Format f)"
    and "bodyErr = (case req_Body rq of
                      Delivers d \<Rightarrow> None | ReadFails e \<Rightarrow> Some e | Cancelled e \<Rightarrow> Some e)"
  shows "(\<exists>err c' s'.
            FromRequest X now newid app route req ctx (c, s) = Returns (err, c', s') \<and>
            IsCloudEvent c' = (isCE \<or> IsCloudEvent c) \<and>
            (case Validate X (r\<lparr>route_Format := fmtR\<rparr>) of
               Some e \<Rightarrow> err = Some e \<and> Call c' = Call c
             | None \<Rightarrow> (\<exists>m. Call c' = Some m \<and> Format m = fmtR) \<and> err = bodyErr)) \<and>
         (\<exists>err c' s'.
            FromHTTPTriggerRequest X now newid app fn trigger req ctx (c, s) =
              Returns (err, c', s') \<and>
            IsCloudEvent c' = (isCE \<or> IsCloudEvent c) \<and>
            (\<exists>m. Call c' = Some m \<and> Format m = fmtF) \<and> err = bodyErr)"
proof -
  obtain err c' s' where
    "FromRequest X now newid app route req ctx (c, s) = Returns (err, c', s')"
    "IsCloudEvent c' = (isCE \<or> IsCloudEvent c)"
    "case Validate X (r\<lparr>route_Format := fmtR\<rparr>) of
       Some e \<Rightarrow> err = Some e \<and> Call c' = Call c
     | None \<Rightarrow> (\<exists>m. Call c' = Some m \<and> Format m = fmtR) \<and> err = bodyErr"
    using FromRequest_result [OF assms(1,2,4,5,7)] by blast
  moreover obtain err2 c2 s2 where
    "FromHTTPTriggerRequest X now newid app fn trigger req ctx (c, s) = Returns (err2, c2, s2)"
    "IsCloudEvent c2 = (isCE \<or> IsCloudEvent c)"
    "\<exists>m. Call c2 = Some m \<and> Format m = fmtF" "err2 = bodyErr"
    using FromHTTPTriggerRequest_result [OF assms(1,3,4,6,7)] by blast
  ultimately show ?thesis by blast
qed

text \<open>
  C10. \<^verbatim>\<open>FromRequest\<close> writes the field \<^verbatim>\<open>Format\<close> of the caller's route, and
  \<^verbatim>\<open>FromHTTPTriggerRequest\<close> that of the caller's function: after the configurator the
  object holds the cloud-event format when the content type is the cloud-event one, and
  the default format when its own format was empty, all its other fields being as they
  were. So the caller's object has changed whenever its format was empty, or was not the
  cloud-event format and the content type is the cloud-event one. \<^verbatim>\<open>FromRequest\<close> does so
  also when it returns the error of the route's validation.
\<close>

theorem configurators_overwrite_Format:
  assumes "requests s req = Some rq" and "routes s route = Some r" and "fns s fn = Some f"
    and "isCE = (case ParseMediaType X (Header_Get (req_Header rq) ''Content-Type'') of
                   Inl e \<Rightarrow> False
                 | Inr (t, ps) \<Rightarrow> t = ceMimeType)"
    and "fmtR = (if isCE then FormatCloudEvent
                 else if route_Format r = '''' then FormatDefault else route_Format r)"
    and "fmtF = (if isCE then FormatCloudEvent
                 else if fn_Format f = '''' then FormatDefault else fn_Format f)"
  shows "(\<exists>err c' s'.
            FromRequest X now newid app route req ctx (c, s) = Returns (err, c', s') \<and>
            routes s' route = Some (r\<lparr>route_Format := fmtR\<rparr>) \<and>
            (route_Format r = '''' \<or> isCE \<and> route_Format r \<noteq> FormatCloudEvent
               \<longrightarrow> routes s' route \<noteq> routes s route)) \<and>
         (\<exists>err c' s'.
            FromHTTPTriggerRequest X now newid app fn trigger req ctx (c, s) =
              Returns (err, c', s') \<and>
            fns s' fn = Some (f\<lparr>fn_Format := fmtF\<rparr>) \<and>
            (fn_Format f = '''' \<or> isCE \<and> fn_Format f \<noteq> FormatCloudEvent
               \<longrightarrow> fns s' fn \<noteq> fns s fn))"
proof -
  have fmtR_neq: "fmtR \<noteq> route_Format r"
    if "route_Format r = [] \<or> isCE \<and> route_Format r \<noteq> FormatCloudEvent"
    using that assms(5) formats_not_empty by (cases isCE) auto
  have fmtF_neq: "fmtF \<noteq> fn_Format f"
    if "fn_Format f = [] \<or> isCE \<and> fn_Format f \<noteq> FormatCloudEvent"
    using that assms(6) formats_not_empty by (cases isCE) auto
  have changed_r: "r\<lparr>route_Format := fmtR\<rparr> \<noteq> r"
    if "route_Format r = [] \<or> isCE \<and> route_Format r \<noteq> FormatCloudEvent"
  proof
    assume "r\<lparr>route_Format := fmtR\<rparr> = r"
    then have "route_Format (r\<lparr>route_Format := fmtR\<rparr>) = route_Format r" by (rule arg_cong)
    then show False using fmtR_neq [OF that] by simp
  qed
  have changed_f: "f\<lparr>fn_Format := fmtF\<rparr> \<noteq> f"
    if "fn_Format f = [] \<or> isCE \<and> fn_Format f \<noteq> FormatCloudEvent"
  proof
    assume "f\<lparr>fn_Format := fmtF\<rparr> = f"
    then have "fn_Format (f\<lparr>fn_Format := fmtF\<rparr>) = fn_Format f" by (rule arg_cong)
    then show False using fmtF_neq [OF that] by simp
  qed
  obtain err c' s' where 1:
    "FromRequest X now newid app route req ctx (c, s) = Returns (err, c', s')"
    "routes s' route = Some (r\<lparr>route_Format := fmtR\<rparr>)"
    using FromRequest_result [OF assms(1,2,4,5) refl] by blast
  have "route_Format r = [] \<or> isCE \<and> route_Format r \<noteq> FormatCloudEvent
          \<longrightarrow> routes s' route \<noteq> routes s route"
    using changed_r 1(2) assms(2) by simp
  with 1 have first: "\<exists>err c' s'.
      FromRequest X now newid app route req ctx (c, s) = Returns (err, c', s') \<and>
      routes s' route = Some (r\<lparr>route_Format := fmtR\<rparr>) \<and>
      (route_Format r = [] \<or> isCE \<and> route_Format r \<noteq> FormatCloudEvent
         \<longrightarrow> routes s' route \<noteq> routes s route)"
    by blast
  obtain err2 c2 s2 where 2:
    "FromHTTPTriggerRequest X now newid app fn trigger req ctx (c, s) = Returns (err2, c2, s2)"
    "fns s2 fn = Some (f\<lparr>fn_Format := fmtF\<rparr>)"
    using FromHTTPTriggerRequest_result [OF assms(1,3,4,6) refl] by blast
  have "fn_Format f = [] \<or> isCE \<and> fn_Format f \<noteq> FormatCloudEvent
          \<longrightarrow> fns s2 fn \<noteq> fns s fn"
    using changed_f 2(2) assms(3) by simp
  with 2 have second: "\<exists>err c' s'.
      FromHTTPTriggerRequest X now newid app fn trigger req ctx (c, s) =
        Returns (err, c', s') \<and>
      fns s' fn = Some (f\<lparr>fn_Format := fmtF\<rparr>) \<and>
      (fn_Format f = [] \<or> isCE \<and> fn_Format f \<noteq> FormatCloudEvent
         \<longrightarrow> fns s' fn \<noteq> fns s fn)"
    by blast
  from first second show ?thesis by (rule conjI)
qed

text \<open>
  The example request carries \<^verbatim>\<open>application/cloudevents+json; charset=UTF-8\<close>; the example
  route and function have an empty format.
\<close>

lemma example_content_type:
  "(case ParseMediaType exampleExternals
           (Header_Get (req_Header exampleRequest) ''Content-Type'') of
      Inl e \<Rightarrow> False
    | Inr (t, ps) \<Rightarrow> t = ceMimeType) = True"
  by (simp add: exampleExternals_def exampleRequest_def Header_Get_def ceMimeType_def)

lemma example_stores:
  "requests exampleWorld 0 = Some exampleRequest"
  "routes exampleWorld 0 = Some exampleRoute"
  "fns exampleWorld 0 = Some exampleFn"
  by (simp_all add: exampleWorld_def)

theorem content_type_sniffing_witness:
  "(\<exists>err c' s'.
      FromRequest exampleExternals 1000 ''01CALL'' exampleApp 0 0 exampleContext
        (zero_call, exampleWorld) = Returns (err, c', s') \<and>
      IsCloudEvent c' \<and> (\<exists>m. Call c' = Some m \<and> Format m = ''cloudevent'') \<and>
      err = None) \<and>
   (\<exists>err c' s'.
      FromHTTPTriggerRequest exampleExternals 1000 ''01CALL'' exampleApp 0 exampleTrigger 0
        exampleContext (zero_call, exampleWorld) = Returns (err, c', s') \<and>
      IsCloudEvent c' \<and> (\<exists>m. Call c' = Some m \<and> Format m = ''cloudevent'') \<and>
      err = None)"
proof -
  have valid: "Validate exampleExternals (exampleRoute\<lparr>route_Format := FormatCloudEvent\<rparr>) = None"
    by (simp add: exampleExternals_def exampleRoute_def)
  have body: "None = (case req_Body exampleRequest of
                        Delivers d \<Rightarrow> None | ReadFails e \<Rightarrow> Some e | Cancelled e \<Rightarrow> Some e)"
    by (simp add: exampleRequest_def)
  have fmtR: "FormatCloudEvent =
      (if True then FormatCloudEvent
       else if route_Format exampleRoute = '''' then FormatDefault
            else route_Format exampleRoute)"
    by simp
  have fmtF: "FormatCloudEvent =
      (if True then FormatCloudEvent
       else if fn_Format exampleFn = '''' then FormatDefault else fn_Format exampleFn)"
    by simp
  show ?thesis
    using content_type_sniffing
            [OF example_stores example_content_type [symmetric] fmtR fmtF body,
             where now = 1000 and newid = "''01CALL''" and app = exampleApp
               and ctx = exampleContext and c = zero_call and trigger = exampleTrigger]
          valid
    by (simp add: FormatCloudEvent_def)
qed

theorem configurators_overwrite_Format_witness:
  "(\<exists>err c' s'.
      FromRequest exampleExternals 1000 ''01CALL'' exampleApp 0 0 exampleContext
        (zero_call, exampleWorld) = Returns (err, c', s') \<and>
      routes s' 0 = Some (exampleRoute\<lparr>route_Format := ''cloudevent''\<rparr>) \<and>
      routes s' 0 \<noteq> routes exampleWorld 0) \<and>
   (\<exists>err c' s'.
      FromHTTPTriggerRequest exampleExternals 1000 ''01CALL'' exampleApp 0 exampleTrigger 0
        exampleContext (zero_call, exampleWorld) = Returns (err, c', s') \<and>
      fns s' 0 = Some (exampleFn\<lparr>fn_Format := ''cloudevent''\<rparr>) \<and>
      fns s' 0 \<noteq> fns exampleWorld 0)"
proof -
  have fmtR: "FormatCloudEvent =
      (if True then FormatCloudEvent
       else if route_Format exampleRoute = '''' then FormatDefault
            else route_Format exampleRoute)"
    by simp
  have fmtF: "FormatCloudEvent =
      (if True then FormatCloudEvent
       else if fn_Format exampleFn = '''' then FormatDefault else fn_Format exampleFn)"
    by simp
  have empty: "route_Format exampleRoute = ''''" "fn_Format exampleFn = ''''"
    by (simp_all add: exampleRoute_def exampleFn_def)
  show ?thesis
    using configurators_overwrite_Format
            [OF example_stores example_content_type [symmetric] fmtR fmtF,
             where now = 1000 and newid = "''01CALL''" and app = exampleApp
               and ctx = exampleContext and c = zero_call and trigger = exampleTrigger]
          empty
    by (simp add: FormatCloudEvent_def)
qed

text \<open>
  C3 (amended). \<^verbatim>\<open>FromEvent\<close> returns its error, and leaves the call as it was, when the
  extensions of the event are not a \<^verbatim>\<open>map[string]interface{}\<close>, and it returns an error in
  no other case: when they are such a map whose \<^verbatim>\<open>app\<close> entry is missing or is not a
  \<^verbatim>\<open>*models.App\<close>, or whose \<^verbatim>\<open>fn\<close> entry is missing or is not a \<^verbatim>\<open>*models.Fn\<close>, the unchecked
  type assertion panics.
\<close>

theorem FromEvent_extension_shape:
  "(Extensions event = NotAMap \<longrightarrow>
      FromEvent X newid event ctx (c, s) =
        Returns (Some (ErrorString ''cloud event extensions must be marshaled with known type''),
                 c, s)) \<and>
   (\<forall>ext. Extensions event = ExtMap ext \<and>
          ((\<forall>app. ext ''app'' \<noteq> Some (AppPtr app)) \<or> (\<forall>fn. ext ''fn'' \<noteq> Some (FnPtr fn))) \<longrightarrow>
      FromEvent X newid event ctx (c, s) = Panics) \<and>
   (\<forall>e c' s'. FromEvent X newid event ctx (c, s) = Returns (Some e, c', s') \<longrightarrow>
      Extensions event = NotAMap)"
  by (simp add: FromEvent_def Let_def
        split: extensions_value.splits option.splits iface.splits)

theorem FromEvent_extension_shape_witness:
  "FromEvent exampleExternals ''01CALL'' \<lparr>Extensions = NotAMap\<rparr> exampleContext
     (zero_call, exampleWorld) =
     Returns (Some (ErrorString ''cloud event extensions must be marshaled with known type''),
              zero_call, exampleWorld) \<and>
   FromEvent exampleExternals ''01CALL''
     \<lparr>Extensions = ExtMap [''app'' \<mapsto> AppPtr (Some exampleApp), ''fn'' \<mapsto> OtherValue]\<rparr>
     exampleContext (zero_call, exampleWorld) = Panics"
  using FromEvent_extension_shape
          [where event = "\<lparr>Extensions = NotAMap\<rparr>" and X = exampleExternals
             and newid = "''01CALL''" and ctx = exampleContext and c = zero_call
             and s = exampleWorld]
        FromEvent_extension_shape
          [where event =
             "\<lparr>Extensions = ExtMap [''app'' \<mapsto> AppPtr (Some exampleApp), ''fn'' \<mapsto> OtherValue]\<rparr>"
             and X = exampleExternals and newid = "''01CALL''" and ctx = exampleContext
             and c = zero_call and s = exampleWorld]
  by simp

text \<open>
  The claim as stated fails on both sides. An extension map with no entry at all makes
  \<^verbatim>\<open>FromEvent\<close> panic, not return an error; and so does the map that holds an app, a
  function and a trigger under their keys, because the trigger is read from the entry
  \<^verbatim>\<open>fn\<close>, which holds the function.
\<close>

theorem FromEvent_panics:
  "FromEvent exampleExternals ''01CALL'' \<lparr>Extensions = ExtMap Map.empty\<rparr> exampleContext
     (zero_call, exampleWorld) = Panics \<and>
   FromEvent exampleExternals ''01CALL''
     \<lparr>Extensions = ExtMap [''app'' \<mapsto> AppPtr (Some exampleApp),
                           ''fn'' \<mapsto> FnPtr (Some exampleFn),
                           ''trigger'' \<mapsto> TriggerPtr (Some exampleTrigger)]\<rparr>
     exampleContext (zero_call, exampleWorld) = Panics"
  by (simp add: FromEvent_def)

text \<open>
  Whatever the event, \<^verbatim>\<open>FromEvent\<close> never returns without an error: the entry \<^verbatim>\<open>fn\<close> cannot
  be a function and a trigger at once.
\<close>

lemma FromEvent_never_succeeds:
  "FromEvent X newid event ctx (c, s) \<noteq> Returns (None, c', s')"
  by (simp add: FromEvent_def Let_def
        split: extensions_value.splits option.splits iface.splits)

section \<open>Assembly and admission\<close>

text \<open>
  The loop over the options is sequential: the options of a list \<open>xs @ ys\<close> are those of
  \<open>xs\<close>, in order, and then, if none of them failed, those of \<open>ys\<close> on the call and the
  world that \<open>xs\<close> left.
\<close>

lemma apply_opts_append:
  "apply_opts ctx (xs @ ys) (c, s) =
     (case apply_opts ctx xs (c, s) of
        Panics \<Rightarrow> Panics
      | Returns (Some err, c', s') \<Rightarrow> Returns (Some err, c', s')
      | Returns (None, c', s') \<Rightarrow> apply_opts ctx ys (c', s'))"
proof (induction xs arbitrary: c s)
  case Nil
  then show ?case by simp
next
  case (Cons opt xs)
  show ?case
  proof (cases "opt ctx (c, s)")
    case Panics
    then show ?thesis by simp
  next
    case (Returns res)
    obtain err c' s' where res: "res = (err, c', s')"
      by (cases res)
    show ?thesis
      using Returns res Cons.IH [of c' s'] by (cases err) simp_all
  qed
qed

text \<open>
  The loop threads the call and the world through the options. Let \<open>states\<close> list the
  call and the world before the first option and after each option: when every option of
  the list, applied to the state before it, returns without an error and leaves the next
  state, the loop ends without an error in the last state.
\<close>

lemma apply_opts_chain:
  "length states = Suc (length opts) \<Longrightarrow>
   \<forall>i<length opts. (opts ! i) ctx (states ! i) = Returns (None, states ! Suc i) \<Longrightarrow>
   apply_opts ctx opts (states ! 0) = Returns (None, states ! length opts)"
proof (induction opts arbitrary: states)
  case Nil
  then show ?case by (cases "states ! 0") simp
next
  case (Cons opt opts)
  obtain st rest where states: "states = st # rest"
    using Cons.prems(1) by (cases states) auto
  obtain c s where st: "st = (c, s)"
    by (cases st)
  have len: "length rest = Suc (length opts)"
    using Cons.prems(1) states by simp
  have first: "opt ctx (c, s) = Returns (None, rest ! 0)"
    using Cons.prems(2) states st by auto
  have steps: "\<forall>i<length opts. (opts ! i) ctx (rest ! i) = Returns (None, rest ! Suc i)"
  proof (intro allI impI)
    fix i
    assume "i < length opts"
    then have "Suc i < length (opt # opts)" by simp
    then have "((opt # opts) ! Suc i) ctx (states ! Suc i) = Returns (None, states ! Suc (Suc i))"
      using Cons.prems(2) by blast
    then show "(opts ! i) ctx (rest ! i) = Returns (None, rest ! Suc i)"
      using states by simp
  qed
  have "apply_opts ctx opts (rest ! 0) = Returns (None, rest ! length opts)"
    using len steps by (rule Cons.IH)
  moreover obtain c' s' where "rest ! 0 = (c', s')"
    by (cases "rest ! 0")
  ultimately show ?case
    using first states st by simp
qed

text \<open>
  C6. \<^verbatim>\<open>GetCall\<close> applies its options in the order of the list, each to the call and the
  world that the option before it left, the first to the zero call. Let the options of
  \<open>pre\<close> succeed one after the other, as the list \<open>states\<close> records, and leave the call \<open>c\<close>
  and the world \<open>s\<close>. When the next option, applied to \<open>c\<close> and \<open>s\<close>, returns an error,
  \<^verbatim>\<open>GetCall\<close> returns this very error, with the world as that option left it: the options
  after it are not applied. When there is no further option and the model of \<open>c\<close> is still
  nil, \<^verbatim>\<open>GetCall\<close> returns the error \<^verbatim>\<open>no model or request provided for call\<close>. When
  there is no further option and some option has set the model, \<^verbatim>\<open>GetCall\<close> goes on (here
  without an overrider) to the admission check of that model, and returns the call or
  \<^verbatim>\<open>ErrCallTimeoutServerBusy\<close>.
\<close>

theorem GetCall_configurators:
  assumes "length states = Suc (length pre)"
    and "states ! 0 = (zero_call, si)"
    and "\<forall>i<length pre. (pre ! i) ctx (states ! i) = Returns (None, states ! Suc i)"
    and "states ! length pre = (c, s)"
  shows "(opt ctx (c, s) = Returns (Some err, cb, sb) \<longrightarrow>
            GetCall X a ctx (pre @ opt # post) si = Returns (Inl err, sb)) \<and>
         (Call c = None \<longrightarrow>
            GetCall X a ctx pre si =
              Returns (Inl (ErrorString ''no model or request provided for call''), s)) \<and>
         (\<forall>m. Call c = Some m \<and> callOverrider a = None \<longrightarrow>
            (\<exists>res. GetCall X a ctx pre si =
                      Returns (res,
                        emit [IsResourcePossibleCalled (Memory m + ucast (TmpFsSize m)) (CPUs m)
                                (Type m = TypeAsync)] s) \<and>
                   (if IsResourcePossible a (Memory m + ucast (TmpFsSize m)) (CPUs m)
                         (Type m = TypeAsync)
                    then \<exists>c'. res = Inr c'
                    else res = Inl ErrCallTimeoutServerBusy)))"
proof -
  have loop: "apply_opts ctx pre (zero_call, si) = Returns (None, c, s)"
    using apply_opts_chain [OF assms(1,3)] assms(2,4) by simp
  show ?thesis
  proof (intro conjI impI allI)
    assume "opt ctx (c, s) = Returns (Some err, cb, sb)"
    then have "apply_opts ctx (pre @ opt # post) (zero_call, si) = Returns (Some err, cb, sb)"
      using loop by (simp add: apply_opts_append)
    then show "GetCall X a ctx (pre @ opt # post) si = Returns (Inl err, sb)"
      by (simp add: GetCall_def)
  next
    assume "Call c = None"
    then show "GetCall X a ctx pre si =
        Returns (Inl (ErrorString ''no model or request provided for call''), s)"
      using loop by (simp add: GetCall_def)
  next
    fix m
    assume "Call c = Some m \<and> callOverrider a = None"
    then show "\<exists>res. GetCall X a ctx pre si =
                      Returns (res,
                        emit [IsResourcePossibleCalled (Memory m + ucast (TmpFsSize m)) (CPUs m)
                                (Type m = TypeAsync)] s) \<and>
                   (if IsResourcePossible a (Memory m + ucast (TmpFsSize m)) (CPUs m)
                         (Type m = TypeAsync)
                    then \<exists>c'. res = Inr c'
                    else res = Inl ErrCallTimeoutServerBusy)"
      using loop
      by (cases "IsResourcePossible a (Memory m + ucast (TmpFsSize m)) (CPUs m)
                   (Type m = TypeAsync)")
         (simp_all add: GetCall_def Let_def emit_def)
  qed
qed

text \<open>
  Three runs. In the first the route has no image: the writer that the first option set
  is the one \<^verbatim>\<open>FromRequest\<close> writes the call id to before the validation fails, and the
  option after it is not applied. In the second no option sets the model. In the third
  the model that \<^verbatim>\<open>FromModel\<close> set is the one admitted.
\<close>

theorem GetCall_configurators_witness:
  "(\<exists>sb. GetCall exampleExternals exampleAgent exampleContext
            ([WithWriter (Some ResponseWriter)] @
             FromRequest exampleExternals 1000 ''01CALL'' exampleApp 0 0 #
             [FromModel (Some exampleCall)])
            (exampleWorld\<lparr>routes := [0 \<mapsto> exampleRoute\<lparr>route_Image := ''''\<rparr>]\<rparr>) =
            Returns (Inl (Foreign 2 ''Missing route Image''), sb) \<and>
          trace sb = [HeaderAdd ''FN_CALL_ID'' ''01CALL'']) \<and>
   GetCall exampleExternals exampleAgent exampleContext
     [WithWriter (Some ResponseWriter), WithExtensions None] exampleWorld =
     Returns (Inl (ErrorString ''no model or request provided for call''), exampleWorld) \<and>
   (\<exists>c'. GetCall exampleExternals exampleAgent exampleContext
            [WithWriter (Some ResponseWriter), FromModel (Some exampleCall)] exampleWorld =
            Returns (Inr c', emit [IsResourcePossibleCalled 128 0 False] exampleWorld))"
proof (intro conjI)
  let ?W = "exampleWorld\<lparr>routes := [0 \<mapsto> exampleRoute\<lparr>route_Image := ''''\<rparr>]\<rparr>"
  let ?c = "zero_call\<lparr>call_w := Some ResponseWriter\<rparr>"
  have "\<exists>cb sb.
      FromRequest exampleExternals 1000 ''01CALL'' exampleApp 0 0 exampleContext (?c, ?W) =
        Returns (Some (Foreign 2 ''Missing route Image''), cb, sb) \<and>
      trace sb = [HeaderAdd ''FN_CALL_ID'' ''01CALL'']"
    by (simp add: FromRequest_def Let_def emit_def exampleWorld_def exampleRequest_def
          exampleRoute_def exampleExternals_def Header_Get_def ceMimeType_def
          FormatCloudEvent_def zero_call_def)
  then obtain cb sb where
    failing: "FromRequest exampleExternals 1000 ''01CALL'' exampleApp 0 0 exampleContext (?c, ?W) =
        Returns (Some (Foreign 2 ''Missing route Image''), cb, sb)"
    and header: "trace sb = [HeaderAdd ''FN_CALL_ID'' ''01CALL'']"
    by blast
  have "GetCall exampleExternals exampleAgent exampleContext
          ([WithWriter (Some ResponseWriter)] @
           FromRequest exampleExternals 1000 ''01CALL'' exampleApp 0 0 #
           [FromModel (Some exampleCall)]) ?W =
        Returns (Inl (Foreign 2 ''Missing route Image''), sb)"
    using GetCall_configurators
            [where pre = "[WithWriter (Some ResponseWriter)]"
               and states = "[(zero_call, ?W), (?c, ?W)]" and si = ?W and c = ?c and s = ?W
               and ctx = exampleContext
               and opt = "FromRequest exampleExternals 1000 ''01CALL'' exampleApp 0 0"
               and err = "Foreign 2 ''Missing route Image''" and cb = cb and sb = sb
               and post = "[FromModel (Some exampleCall)]" and X = exampleExternals
               and a = exampleAgent]
          failing
    by (simp add: WithWriter_def)
  then show "\<exists>sb. GetCall exampleExternals exampleAgent exampleContext
            ([WithWriter (Some ResponseWriter)] @
             FromRequest exampleExternals 1000 ''01CALL'' exampleApp 0 0 #
             [FromModel (Some exampleCall)]) ?W =
            Returns (Inl (Foreign 2 ''Missing route Image''), sb) \<and>
          trace sb = [HeaderAdd ''FN_CALL_ID'' ''01CALL'']"
    using header by blast
next
  let ?c = "zero_call\<lparr>call_w := Some ResponseWriter\<rparr>"
  show "GetCall exampleExternals exampleAgent exampleContext
     [WithWriter (Some ResponseWriter), WithExtensions None] exampleWorld =
     Returns (Inl (ErrorString ''no model or request provided for call''), exampleWorld)"
    using GetCall_configurators
            [where pre = "[WithWriter (Some ResponseWriter), WithExtensions None]"
               and states = "[(zero_call, exampleWorld), (?c, exampleWorld),
                              (?c\<lparr>extensions := None\<rparr>, exampleWorld)]"
               and si = exampleWorld and c = "?c\<lparr>extensions := None\<rparr>" and s = exampleWorld
               and ctx = exampleContext and X = exampleExternals and a = exampleAgent]
    by (simp add: WithWriter_def WithExtensions_def zero_call_def less_Suc_eq)
next
  let ?c = "zero_call\<lparr>call_w := Some ResponseWriter, Call := Some exampleCall\<rparr>"
  let ?pre = "[WithWriter (Some ResponseWriter), FromModel (Some exampleCall)]"
  let ?states = "[(zero_call, exampleWorld),
                  (zero_call\<lparr>call_w := Some ResponseWriter\<rparr>, exampleWorld),
                  (?c, exampleWorld)]"
  have len: "length ?states = Suc (length ?pre)"
    by simp
  have start: "?states ! 0 = (zero_call, exampleWorld)"
    by simp
  have steps: "\<forall>i<length ?pre.
      (?pre ! i) exampleContext (?states ! i) = Returns (None, ?states ! Suc i)"
    by (simp add: WithWriter_def FromModel_def less_Suc_eq)
  have last: "?states ! length ?pre = (?c, exampleWorld)"
    by simp
  have admitted: "IsResourcePossible exampleAgent
      (Memory exampleCall + ucast (TmpFsSize exampleCall)) (CPUs exampleCall)
      (Type exampleCall = TypeAsync)"
    by (simp add: exampleAgent_def exampleCall_def zeroCall_def)
  have "\<exists>res. GetCall exampleExternals exampleAgent exampleContext ?pre exampleWorld =
               Returns (res,
                 emit [IsResourcePossibleCalled
                         (Memory exampleCall + ucast (TmpFsSize exampleCall))
                         (CPUs exampleCall) (Type exampleCall = TypeAsync)] exampleWorld) \<and>
             (\<exists>c'. res = Inr c')"
    using GetCall_configurators
            [OF len start steps last, where a = exampleAgent and X = exampleExternals,
             THEN conjunct2, THEN conjunct2, rule_format, of exampleCall]
          admitted
    by (simp add: exampleAgent_def)
  then have "\<exists>c'. GetCall exampleExternals exampleAgent exampleContext ?pre exampleWorld =
               Returns (Inr c',
                 emit [IsResourcePossibleCalled
                         (Memory exampleCall + ucast (TmpFsSize exampleCall))
                         (CPUs exampleCall) (Type exampleCall = TypeAsync)] exampleWorld)"
    by blast
  then show "\<exists>c'. GetCall exampleExternals exampleAgent exampleContext
            [WithWriter (Some ResponseWriter), FromModel (Some exampleCall)] exampleWorld =
            Returns (Inr c', emit [IsResourcePossibleCalled 128 0 False] exampleWorld)"
    by (simp add: exampleCall_def zeroCall_def TypeAsync_def)
qed

text \<open>
  The demand that \<^verbatim>\<open>GetCall\<close> computes, \<^verbatim>\<open>c.Memory + uint64(c.TmpFsSize)\<close>, is a sum of
  unsigned 64-bit integers.
\<close>

lemma unat_ucast_TmpFsSize: "unat (ucast (b :: 32 word) :: 64 word) = unat b"
proof -
  have "unat b < 2 ^ 32"
    using unsigned_less [of b] by simp
  then have "unat b < 2 ^ 64"
    by (rule less_trans) simp
  then show ?thesis
    by (simp add: unsigned_ucast_eq take_bit_nat_eq_self)
qed

lemma unat_demand:
  "unat (mem + ucast (tmp :: 32 word) :: 64 word) = (unat mem + unat tmp) mod 2 ^ 64"
  by (simp add: unat_word_ariths unat_ucast_TmpFsSize)

text \<open>
  C1. Take a call that the options assembled (they all succeeded and the model \<open>mc\<close> is
  not nil) and that the overrider, if there is one, accepted, leaving the model \<open>m\<close>.
  \<^verbatim>\<open>GetCall\<close> then asks \<^verbatim>\<open>IsResourcePossible\<close> once, with the memory of the model plus its
  ephemeral-storage size (a sum of unsigned 64-bit integers), with its CPUs, and with
  whether its type is async. When the answer is false, \<^verbatim>\<open>GetCall\<close> returns
  \<^verbatim>\<open>ErrCallTimeoutServerBusy\<close> and no call. In either case the only effects of \<^verbatim>\<open>GetCall\<close>
  beyond those of the options are the calls to the overrider and to \<^verbatim>\<open>IsResourcePossible\<close>:
  no hook of the lifecycle is fired.
\<close>

theorem GetCall_admission:
  assumes "apply_opts ctx opts (zero_call, si) = Returns (None, c, s)"
    and "Call c = Some mc"
    and "callOverrider a = None \<and> m = mc \<and> ov = [] \<or>
         (\<exists>f ext. callOverrider a = Some f \<and> f mc (extensions c) = (m, ext, None) \<and>
                  ov = [Overrider mc (extensions c)])"
    and "mem = Memory m + ucast (TmpFsSize m)"
    and "async = (Type m = TypeAsync)"
  shows "unat mem = (unat (Memory m) + unat (TmpFsSize m)) mod 2 ^ 64 \<and>
     (\<exists>res. GetCall X a ctx opts si =
               Returns (res, emit (ov @ [IsResourcePossibleCalled mem (CPUs m) async]) s) \<and>
            (if IsResourcePossible a mem (CPUs m) async then (\<exists>c'. res = Inr c')
             else res = Inl ErrCallTimeoutServerBusy))"
proof (rule conjI)
  show "unat mem = (unat (Memory m) + unat (TmpFsSize m)) mod 2 ^ 64"
    using assms(4) by (simp add: unat_demand)
next
  from assms(3) show "\<exists>res. GetCall X a ctx opts si =
               Returns (res, emit (ov @ [IsResourcePossibleCalled mem (CPUs m) async]) s) \<and>
            (if IsResourcePossible a mem (CPUs m) async then (\<exists>c'. res = Inr c')
             else res = Inl ErrCallTimeoutServerBusy)"
  proof (elim disjE conjE exE)
    assume "callOverrider a = None" "m = mc" "ov = []"
    then show ?thesis
      using assms(1,2,4,5)
      by (cases "IsResourcePossible a mem (CPUs m) async")
         (simp_all add: GetCall_def Let_def emit_def)
  next
    fix f ext
    assume "callOverrider a = Some f" "f mc (extensions c) = (m, ext, None)"
      "ov = [Overrider mc (extensions c)]"
    then show ?thesis
      using assms(1,2,4,5)
      by (cases "IsResourcePossible a mem (CPUs m) async")
         (simp_all add: GetCall_def Let_def emit_def)
  qed
qed

theorem GetCall_admission_witness:
  "GetCall exampleExternals exampleAgent exampleContext
     [FromModel (Some (exampleCall\<lparr>Memory := 2048, TmpFsSize := 16\<rparr>))] exampleWorld =
     Returns (Inl ErrCallTimeoutServerBusy,
              emit [IsResourcePossibleCalled 2064 0 False] exampleWorld)"
  using GetCall_admission
          [where opts = "[FromModel (Some (exampleCall\<lparr>Memory := 2048, TmpFsSize := 16\<rparr>))]"
             and ctx = exampleContext and si = exampleWorld and s = exampleWorld
             and c = "zero_call\<lparr>Call := Some (exampleCall\<lparr>Memory := 2048, TmpFsSize := 16\<rparr>)\<rparr>"
             and mc = "exampleCall\<lparr>Memory := 2048, TmpFsSize := 16\<rparr>"
             and m = "exampleCall\<lparr>Memory := 2048, TmpFsSize := 16\<rparr>"
             and ov = "[]" and a = exampleAgent and X = exampleExternals
             and mem = 2064 and async = False]
  by (simp add: FromModel_def exampleAgent_def exampleCall_def TypeAsync_def zeroCall_def)

end
